theory Spec2Isabelle
  imports Main
begin

section \<open>Python values crossing the module boundary\<close>

text \<open>
  The module \<^verbatim>\<open>powermgr.py\<close> only ever tests values for truthiness, compares
  them with string literals and hands them on. The values that reach it (preference values,
  attributes of a power source descriptor, the console user name) are modelled by a small
  universe of Python values.
\<close>

datatype pyval = PyNone | PyBool bool | PyInt int | PyStr string

text \<open>Python truthiness, as used by \<^verbatim>\<open>if x:\<close>, \<^verbatim>\<open>not x\<close> and \<^verbatim>\<open>x and y\<close>.\<close>

fun truthy :: "pyval \<Rightarrow> bool" where
  "truthy PyNone = False"
| "truthy (PyBool b) = b"
| "truthy (PyInt n) = (n \<noteq> 0)"
| "truthy (PyStr s) = (s \<noteq> [])"

text \<open>\<^verbatim>\<open>a and b\<close>: the left operand when it is falsy, the right operand otherwise.\<close>

definition py_and :: "pyval \<Rightarrow> pyval \<Rightarrow> pyval" where
  "py_and a b = (if truthy a then b else a)"

text \<open>\<^verbatim>\<open>v == 'literal'\<close>: only a string is equal to a string.\<close>

fun py_eq_str :: "pyval \<Rightarrow> string \<Rightarrow> bool" where
  "py_eq_str (PyStr t) s = (t = s)"
| "py_eq_str PyNone s = False"
| "py_eq_str (PyBool b) s = False"
| "py_eq_str (PyInt n) s = False"

text \<open>
  A power source descriptor is a dictionary from attribute names to values;
  \<^verbatim>\<open>d.get(k, default)\<close> is the lookup with a default (\<^verbatim>\<open>d.get(k)\<close> has the
  default \<^verbatim>\<open>None\<close>).
\<close>

type_synonym descriptor = "string \<rightharpoonup> pyval"

definition dict_get :: "descriptor \<Rightarrow> string \<Rightarrow> pyval \<Rightarrow> pyval" where
  "dict_get d k dflt = (case d k of None \<Rightarrow> dflt | Some v \<Rightarrow> v)"

section \<open>The host and the collaborators\<close>

text \<open>
  Everything \<^verbatim>\<open>powermgr.py\<close> reads from outside is a field of the record
  \<open>host\<close>: the six IOKit functions bound at load time (lines 46--56) and the three
  collaborators \<^verbatim>\<open>prefs.pref\<close>, \<^verbatim>\<open>os.path.exists\<close> and
  \<^verbatim>\<open>osutils.getconsoleuser\<close>, together with the constant
  \<^verbatim>\<open>constants.CHECKANDINSTALLATSTARTUPFLAG\<close>, whose value is defined in another
  module and therefore is a parameter here. The snapshot handle and the power source
  handles are opaque, hence type variables. \<^verbatim>\<open>IOPMAssertionCreateWithName\<close>
  (signature \<^verbatim>\<open>i@i@o^i\<close>) takes the assertion type, the level and the reason and
  yields the error code together with the assertion id written to its out parameter.
  \<^verbatim>\<open>IOPSCopyPowerSourcesList\<close> is taken to yield a sequence and
  \<^verbatim>\<open>IOPSGetPowerSourceDescription\<close> a dictionary, as the code assumes when it
  iterates over the one and calls \<^verbatim>\<open>.get\<close> on the other.
\<close>

record ('blob, 'src) host =
  IOPSCopyPowerSourcesInfo :: "'blob"
  IOPSGetProvidingPowerSourceType :: "'blob \<Rightarrow> pyval"
  IOPSCopyPowerSourcesList :: "'blob \<Rightarrow> 'src list"
  IOPSGetPowerSourceDescription :: "'blob \<Rightarrow> 'src \<Rightarrow> descriptor"
  IOPMAssertionCreateWithName :: "string \<Rightarrow> int \<Rightarrow> string \<Rightarrow> int \<times> int"
  pref :: "string \<Rightarrow> pyval"
  path_exists :: "string \<Rightarrow> bool"
  CHECKANDINSTALLATSTARTUPFLAG :: "string"
  getconsoleuser :: "pyval"

text \<open>
  The observable effects of the module are the log entries it hands to the
  \<^verbatim>\<open>display\<close> module and the two assertion calls it makes on the host. They are
  recorded, in the order in which they happen, in a trace that every effectful operation
  takes and returns extended.
\<close>

datatype event =
    LogInfo string
  | LogError string
  | HostCreate string int string
  | HostRelease int

type_synonym trace = "event list"

text \<open>
  Modelled from the spec: the functions \<^verbatim>\<open>display.display_info\<close> and
  \<^verbatim>\<open>display.display_error\<close> live in another module; section 6 of the
  specification describes them as one-way diagnostic output that returns no value and
  never throws. Each call appends one entry to the trace.
\<close>

definition display_info :: "string \<Rightarrow> trace \<Rightarrow> trace" where
  "display_info msg t = t @ [LogInfo msg]"

definition display_error :: "string \<Rightarrow> trace \<Rightarrow> trace" where
  "display_error msg t = t @ [LogError msg]"

text \<open>
  The release function \<^verbatim>\<open>IOPMAssertionRelease\<close> (signature \<^verbatim>\<open>vi\<close>)
  returns nothing; a call is recorded in the trace.
\<close>

definition IOPMAssertionRelease :: "int \<Rightarrow> trace \<Rightarrow> trace" where
  "IOPMAssertionRelease assertion_id t = t @ [HostRelease assertion_id]"

text \<open>Projections of a trace, used to count what an operation did.\<close>

fun info_entries :: "trace \<Rightarrow> string list" where
  "info_entries [] = []"
| "info_entries (LogInfo m # es) = m # info_entries es"
| "info_entries (LogError m # es) = info_entries es"
| "info_entries (HostCreate k l r # es) = info_entries es"
| "info_entries (HostRelease i # es) = info_entries es"

fun error_entries :: "trace \<Rightarrow> string list" where
  "error_entries [] = []"
| "error_entries (LogInfo m # es) = error_entries es"
| "error_entries (LogError m # es) = m # error_entries es"
| "error_entries (HostCreate k l r # es) = error_entries es"
| "error_entries (HostRelease i # es) = error_entries es"

fun create_calls :: "trace \<Rightarrow> (string \<times> int \<times> string) list" where
  "create_calls [] = []"
| "create_calls (LogInfo m # es) = create_calls es"
| "create_calls (LogError m # es) = create_calls es"
| "create_calls (HostCreate k l r # es) = (k, l, r) # create_calls es"
| "create_calls (HostRelease i # es) = create_calls es"

fun release_calls :: "trace \<Rightarrow> int list" where
  "release_calls [] = []"
| "release_calls (LogInfo m # es) = release_calls es"
| "release_calls (LogError m # es) = release_calls es"
| "release_calls (HostCreate k l r # es) = release_calls es"
| "release_calls (HostRelease i # es) = i # release_calls es"

fun is_create :: "event \<Rightarrow> bool" where
  "is_create (HostCreate k l r) = True"
| "is_create (LogInfo m) = False"
| "is_create (LogError m) = False"
| "is_create (HostRelease i) = False"

text \<open>
  The events an operation added to the trace \<open>t\<close> it started from. Every operation
  below only appends to the trace it is given (lemmas \<open>assertSleepPrevention_extends\<close>,
  \<open>removeSleepPreventionAssertion_extends\<close> and \<open>Caffeinator_lifetime_extends\<close>).
\<close>

definition emitted :: "trace \<Rightarrow> trace \<Rightarrow> trace" where
  "emitted t t' = drop (length t) t'"

section \<open>Power queries (lines 59--94)\<close>

definition onACPower :: "('blob, 'src) host \<Rightarrow> bool" where
  "onACPower h =
     (let power_source = IOPSGetProvidingPowerSourceType h (IOPSCopyPowerSourcesInfo h)
      in py_eq_str power_source ''AC Power'')"

definition onBatteryPower :: "('blob, 'src) host \<Rightarrow> bool" where
  "onBatteryPower h =
     (let power_source = IOPSGetProvidingPowerSourceType h (IOPSCopyPowerSourcesInfo h)
      in py_eq_str power_source ''Battery Power'')"

text \<open>
  The \<^verbatim>\<open>for source in power_sources\<close> loops of \<^verbatim>\<open>getBatteryPercentage\<close>
  and \<^verbatim>\<open>hasInternalBattery\<close>, by recursion on the list; the first argument is
  \<^verbatim>\<open>IOPSGetPowerSourceDescription(ps_blob, _)\<close>.
\<close>

fun getBatteryPercentage_loop :: "('src \<Rightarrow> descriptor) \<Rightarrow> 'src list \<Rightarrow> pyval" where
  "getBatteryPercentage_loop describe [] = PyInt 0"
| "getBatteryPercentage_loop describe (source # power_sources) =
     (let description = describe source
      in if py_eq_str (dict_get description ''Type'' PyNone) ''InternalBattery''
         then dict_get description ''Current Capacity'' (PyInt 0)
         else getBatteryPercentage_loop describe power_sources)"

definition getBatteryPercentage :: "('blob, 'src) host \<Rightarrow> pyval" where
  "getBatteryPercentage h =
     (let ps_blob = IOPSCopyPowerSourcesInfo h;
          power_sources = IOPSCopyPowerSourcesList h ps_blob
      in getBatteryPercentage_loop (IOPSGetPowerSourceDescription h ps_blob) power_sources)"

fun hasInternalBattery_loop :: "('src \<Rightarrow> descriptor) \<Rightarrow> 'src list \<Rightarrow> bool" where
  "hasInternalBattery_loop describe [] = False"
| "hasInternalBattery_loop describe (source # power_sources) =
     (let description = describe source
      in if py_eq_str (dict_get description ''Type'' PyNone) ''InternalBattery''
         then True
         else hasInternalBattery_loop describe power_sources)"

definition hasInternalBattery :: "('blob, 'src) host \<Rightarrow> bool" where
  "hasInternalBattery h =
     (let ps_blob = IOPSCopyPowerSourcesInfo h;
          power_sources = IOPSCopyPowerSourcesList h ps_blob
      in hasInternalBattery_loop (IOPSGetPowerSourceDescription h ps_blob) power_sources)"

section \<open>Sleep prevention assertions (lines 97--134)\<close>

text \<open>
  The local variable \<^verbatim>\<open>prevent_display_sleep\<close> of lines 99--103: a chain of
  \<^verbatim>\<open>and\<close>, so its value is the first falsy operand or the last one.
\<close>

definition prevent_display_sleep :: "('blob, 'src) host \<Rightarrow> pyval" where
  "prevent_display_sleep h =
     py_and (pref h ''SuspendDisplaySleepDuringBootstrap'')
       (py_and (PyBool (path_exists h (CHECKANDINSTALLATSTARTUPFLAG h)))
          (PyBool (py_eq_str (getconsoleuser h) ''loginwindow'')))"

text \<open>The local variable \<^verbatim>\<open>kIOPMAssertionType\<close> of lines 104--108.\<close>

definition kIOPMAssertionType :: "('blob, 'src) host \<Rightarrow> string" where
  "kIOPMAssertionType h =
     (if truthy (prevent_display_sleep h) then ''NoDisplaySleepAssertion''
      else ''NoIdleSleepAssertion'')"

definition kIOPMAssertionLevelOn :: int where
  "kIOPMAssertionLevelOn = 255"

text \<open>
  Lines 111--112: the parameter \<^verbatim>\<open>reason\<close> (a string, or \<^verbatim>\<open>None\<close>
  when the caller supplies none) after \<^verbatim>\<open>if not reason: reason = ...\<close>. The empty
  string is falsy too.
\<close>

definition reason_or_default :: "string option \<Rightarrow> string" where
  "reason_or_default reason =
     (case reason of
        None \<Rightarrow> ''Munki is installing software''
      | Some s \<Rightarrow> if s = [] then ''Munki is installing software'' else s)"

text \<open>
  \<^verbatim>\<open>assertSleepPrevention\<close>. The \<^verbatim>\<open>if prevent_display_sleep:\<close> of
  lines 104--108 does two things under one test: it logs the explanatory entry (the step
  from \<open>t0\<close> to \<open>t1\<close>) and it chooses the assertion type (the definition
  \<open>kIOPMAssertionType\<close> above). The fourth argument of the creation call is the
  placeholder of the out parameter and carries no information. The result is \<open>None\<close>
  for Python's \<^verbatim>\<open>None\<close> and \<open>Some i\<close> for the integer
  \<^verbatim>\<open>assertID\<close>.
\<close>

definition assertSleepPrevention ::
  "('blob, 'src) host \<Rightarrow> string option \<Rightarrow> trace \<Rightarrow> int option \<times> trace" where
  "assertSleepPrevention h reason t0 =
     (let t1 = (if truthy (prevent_display_sleep h)
                then display_info ''Display sleep suspended due to SuspendDisplaySleepDuringBootstrap preference enabled, bootstrap flag set, and currently at loginwindow.'' t0
                else t0);
          reason' = reason_or_default reason;
          t2 = display_info (''Preventing ''
                 @ (if truthy (prevent_display_sleep h) then ''display'' else ''idle'')
                 @ '' sleep due to: '' @ reason') t1;
          (errcode, assertID) =
             IOPMAssertionCreateWithName h (kIOPMAssertionType h) kIOPMAssertionLevelOn reason';
          t3 = t2 @ [HostCreate (kIOPMAssertionType h) kIOPMAssertionLevelOn reason']
      in if errcode \<noteq> 0
         then (None, display_error ''Failed to create sleep prevention assertion.'' t3)
         else (Some assertID, t3))"

text \<open>The explanatory entry of line 105, for use in statements about the log.\<close>

abbreviation display_sleep_explanation :: string where
  "display_sleep_explanation \<equiv> ''Display sleep suspended due to SuspendDisplaySleepDuringBootstrap preference enabled, bootstrap flag set, and currently at loginwindow.''"

text \<open>
  \<^verbatim>\<open>removeSleepPreventionAssertion\<close>: \<^verbatim>\<open>if assertion_id:\<close> is false
  for \<^verbatim>\<open>None\<close> and for the integer 0.
\<close>

definition removeSleepPreventionAssertion :: "int option \<Rightarrow> trace \<Rightarrow> trace" where
  "removeSleepPreventionAssertion assertion_id t =
     (case assertion_id of
        None \<Rightarrow> t
      | Some i \<Rightarrow>
          if i \<noteq> 0 then IOPMAssertionRelease i (display_info ''Allowing idle sleep'' t)
          else t)"

section \<open>The scoped handle (lines 137--147)\<close>

record Caffeinator =
  assertion_id :: "int option"

definition Caffeinator_init ::
  "('blob, 'src) host \<Rightarrow> string option \<Rightarrow> trace \<Rightarrow> Caffeinator \<times> trace" where
  "Caffeinator_init h reason t =
     (let (r, t') = assertSleepPrevention h reason t
      in (\<lparr>assertion_id = r\<rparr>, t'))"

definition Caffeinator_del :: "Caffeinator \<Rightarrow> trace \<Rightarrow> trace" where
  "Caffeinator_del self t = removeSleepPreventionAssertion (assertion_id self) t"

text \<open>
  A handle that is constructed and then goes out of scope: \<^verbatim>\<open>__init__\<close> followed
  by \<^verbatim>\<open>__del__\<close>.
\<close>

definition Caffeinator_lifetime ::
  "('blob, 'src) host \<Rightarrow> string option \<Rightarrow> trace \<Rightarrow> trace" where
  "Caffeinator_lifetime h reason t =
     (let (self, t') = Caffeinator_init h reason t in Caffeinator_del self t')"

section \<open>Concrete hosts\<close>

text \<open>
  Hosts on which the operations are evaluated. The first has a UPS and an internal
  battery at 87 percent, no bootstrap in progress, and grants every assertion with id 42.
  The second differs only in refusing every assertion with the IOKit error code
  \<^verbatim>\<open>kIOReturnError\<close>. On the third the preference is set, the marker file exists
  and the login window is showing; it grants every assertion with id 0.
\<close>

definition host_idle_ok :: "(unit, nat) host" where
  "host_idle_ok = \<lparr>
     IOPSCopyPowerSourcesInfo = (),
     IOPSGetProvidingPowerSourceType = (\<lambda>b. PyStr ''UPS Power''),
     IOPSCopyPowerSourcesList = (\<lambda>b. [0, 1]),
     IOPSGetPowerSourceDescription = (\<lambda>b s. if s = 0 then [''Type'' \<mapsto> PyStr ''UPS''] else [''Type'' \<mapsto> PyStr ''InternalBattery'', ''Current Capacity'' \<mapsto> PyInt 87]),
     IOPMAssertionCreateWithName = (\<lambda>k l r. (0, 42)),
     pref = (\<lambda>n. PyNone),
     path_exists = (\<lambda>p. False),
     CHECKANDINSTALLATSTARTUPFLAG = ''/Users/Shared/.com.googlecode.munki.checkandinstallatstartup'',
     getconsoleuser = PyStr ''alice'' \<rparr>"

definition host_idle_fail :: "(unit, nat) host" where
  "host_idle_fail = host_idle_ok \<lparr> IOPMAssertionCreateWithName := (\<lambda>k l r. (- 536870212, 0)) \<rparr>"

definition host_display_zero :: "(unit, nat) host" where
  "host_display_zero = host_idle_ok \<lparr>
     IOPMAssertionCreateWithName := (\<lambda>k l r. (0, 0)),
     pref := (\<lambda>n. if n = ''SuspendDisplaySleepDuringBootstrap'' then PyBool True else PyNone),
     path_exists := (\<lambda>p. p = ''/Users/Shared/.com.googlecode.munki.checkandinstallatstartup''),
     getconsoleuser := PyStr ''loginwindow'' \<rparr>"

text \<open>
  A host like the third, except that a user is logged in at the console: two of the three
  conditions for display sleep prevention hold.
\<close>

definition host_bootstrap_user :: "(unit, nat) host" where
  "host_bootstrap_user = host_display_zero \<lparr> getconsoleuser := PyStr ''alice'' \<rparr>"

text \<open>
  A host that runs on AC power and has a single power source, a UPS that reports a
  capacity of 55 percent; there is no internal battery.
\<close>

definition host_ac_only :: "(unit, nat) host" where
  "host_ac_only = host_idle_ok \<lparr>
     IOPSGetProvidingPowerSourceType := (\<lambda>b. PyStr ''AC Power''),
     IOPSCopyPowerSourcesList := (\<lambda>b. [0]),
     IOPSGetPowerSourceDescription :=
       (\<lambda>b s. [''Type'' \<mapsto> PyStr ''UPS'', ''Current Capacity'' \<mapsto> PyInt 55]) \<rparr>"

section \<open>Auxiliary facts\<close>

lemma py_eq_str_iff: "py_eq_str v s \<longleftrightarrow> v = PyStr s"
  by (cases v) auto

lemma emitted_append: "emitted t (t @ new) = new"
  by (simp add: emitted_def)

lemma emitted_self: "emitted t t = []"
  by (simp add: emitted_def)

lemma truthy_prevent_display_sleep:
  "truthy (prevent_display_sleep h) \<longleftrightarrow>
     truthy (pref h ''SuspendDisplaySleepDuringBootstrap'')
     \<and> path_exists h (CHECKANDINSTALLATSTARTUPFLAG h)
     \<and> getconsoleuser h = PyStr ''loginwindow''"
  by (simp add: prevent_display_sleep_def py_and_def py_eq_str_iff)

lemma assertSleepPrevention_snd:
  "snd (assertSleepPrevention h reason t) =
     t @ (if truthy (prevent_display_sleep h)
          then [LogInfo ''Display sleep suspended due to SuspendDisplaySleepDuringBootstrap preference enabled, bootstrap flag set, and currently at loginwindow.'']
          else [])
       @ [LogInfo (''Preventing ''
                 @ (if truthy (prevent_display_sleep h) then ''display'' else ''idle'')
                 @ '' sleep due to: '' @ reason_or_default reason),
          HostCreate (kIOPMAssertionType h) kIOPMAssertionLevelOn (reason_or_default reason)]
       @ (if fst (IOPMAssertionCreateWithName h (kIOPMAssertionType h) kIOPMAssertionLevelOn
                    (reason_or_default reason)) \<noteq> 0
          then [LogError ''Failed to create sleep prevention assertion.'']
          else [])"
  by (simp add: assertSleepPrevention_def display_info_def display_error_def Let_def
      split: prod.splits)

lemma assertSleepPrevention_fst:
  "fst (assertSleepPrevention h reason t) =
     (if fst (IOPMAssertionCreateWithName h (kIOPMAssertionType h) kIOPMAssertionLevelOn
                (reason_or_default reason)) \<noteq> 0
      then None
      else Some (snd (IOPMAssertionCreateWithName h (kIOPMAssertionType h) kIOPMAssertionLevelOn
                (reason_or_default reason))))"
  by (simp add: assertSleepPrevention_def Let_def split: prod.splits)


lemma removeSleepPreventionAssertion_snd:
  "removeSleepPreventionAssertion a t =
     t @ (case a of None \<Rightarrow> []
          | Some i \<Rightarrow> if i \<noteq> 0 then [LogInfo ''Allowing idle sleep'', HostRelease i] else [])"
  by (simp add: removeSleepPreventionAssertion_def IOPMAssertionRelease_def display_info_def
      split: option.splits)

lemma Caffeinator_lifetime_eq:
  "Caffeinator_lifetime h reason t =
     removeSleepPreventionAssertion (fst (assertSleepPrevention h reason t))
       (snd (assertSleepPrevention h reason t))"
  by (simp add: Caffeinator_lifetime_def Caffeinator_init_def Caffeinator_del_def
      split: prod.splits)

lemma info_entries_append: "info_entries (xs @ ys) = info_entries xs @ info_entries ys"
  by (induction xs rule: info_entries.induct) simp_all

lemma error_entries_append: "error_entries (xs @ ys) = error_entries xs @ error_entries ys"
  by (induction xs rule: error_entries.induct) simp_all

lemma create_calls_append: "create_calls (xs @ ys) = create_calls xs @ create_calls ys"
  by (induction xs rule: create_calls.induct) simp_all

lemma release_calls_append: "release_calls (xs @ ys) = release_calls xs @ release_calls ys"
  by (induction xs rule: release_calls.induct) simp_all


lemma assertSleepPrevention_emitted:
  "emitted t (snd (assertSleepPrevention h reason t)) =
     (if truthy (prevent_display_sleep h) then [LogInfo display_sleep_explanation] else [])
       @ [LogInfo (''Preventing ''
                 @ (if truthy (prevent_display_sleep h) then ''display'' else ''idle'')
                 @ '' sleep due to: '' @ reason_or_default reason),
          HostCreate (kIOPMAssertionType h) kIOPMAssertionLevelOn (reason_or_default reason)]
       @ (if fst (IOPMAssertionCreateWithName h (kIOPMAssertionType h) kIOPMAssertionLevelOn
                    (reason_or_default reason)) \<noteq> 0
          then [LogError ''Failed to create sleep prevention assertion.'']
          else [])"
  unfolding assertSleepPrevention_snd by (rule emitted_append)

lemma assertSleepPrevention_extends:
  "snd (assertSleepPrevention h reason t) = t @ emitted t (snd (assertSleepPrevention h reason t))"
  unfolding assertSleepPrevention_emitted by (simp add: assertSleepPrevention_snd)

lemma Caffeinator_lifetime_emitted:
  "emitted t (Caffeinator_lifetime h reason t) =
     emitted t (snd (assertSleepPrevention h reason t))
     @ (case fst (assertSleepPrevention h reason t) of None \<Rightarrow> []
        | Some i \<Rightarrow> if i \<noteq> 0 then [LogInfo ''Allowing idle sleep'', HostRelease i] else [])"
proof -
  obtain new where new: "snd (assertSleepPrevention h reason t) = t @ new"
    using assertSleepPrevention_extends by blast
  show ?thesis
    unfolding Caffeinator_lifetime_eq removeSleepPreventionAssertion_snd new
    by (simp add: emitted_def)
qed

lemma removeSleepPreventionAssertion_extends:
  "removeSleepPreventionAssertion a t = t @ emitted t (removeSleepPreventionAssertion a t)"
  unfolding removeSleepPreventionAssertion_snd by (simp add: emitted_append)

lemma Caffeinator_lifetime_extends:
  "Caffeinator_lifetime h reason t = t @ emitted t (Caffeinator_lifetime h reason t)"
proof -
  obtain new where new: "snd (assertSleepPrevention h reason t) = t @ new"
    using assertSleepPrevention_extends by blast
  show ?thesis
    unfolding Caffeinator_lifetime_eq removeSleepPreventionAssertion_snd new
    by (simp add: emitted_def)
qed

lemma host_bootstrap_user_idle: "\<not> truthy (prevent_display_sleep host_bootstrap_user)"
  by (simp add: truthy_prevent_display_sleep host_bootstrap_user_def)

lemma host_display_zero_display: "truthy (prevent_display_sleep host_display_zero)"
  by (simp add: truthy_prevent_display_sleep host_display_zero_def host_idle_ok_def)

lemma host_display_zero_create: "IOPMAssertionCreateWithName host_display_zero k l r = (0, 0)"
  by (simp add: host_display_zero_def)

lemma Caffeinator_init_assertion_id:
  "assertion_id (fst (Caffeinator_init h reason t)) = fst (assertSleepPrevention h reason t)"
  by (simp add: Caffeinator_init_def split_beta)

lemma is_battery_iff:
  "py_eq_str (dict_get d ''Type'' PyNone) ''InternalBattery''
     \<longleftrightarrow> d ''Type'' = Some (PyStr ''InternalBattery'')"
  by (simp add: dict_get_def py_eq_str_iff split: option.splits)

lemma getBatteryPercentage_loop_find:
  "getBatteryPercentage_loop describe srcs =
     (case find (\<lambda>d. d ''Type'' = Some (PyStr ''InternalBattery'')) (map describe srcs) of
        None \<Rightarrow> PyInt 0
      | Some d \<Rightarrow> (case d ''Current Capacity'' of None \<Rightarrow> PyInt 0 | Some v \<Rightarrow> v))"
proof (induction srcs)
  case Nil
  then show ?case by simp
next
  case (Cons s srcs)
  show ?case
  proof (cases "describe s ''Type'' = Some (PyStr ''InternalBattery'')")
    case True
    then show ?thesis
      by (simp add: is_battery_iff dict_get_def)
  next
    case False
    then show ?thesis
      using Cons.IH by (simp add: is_battery_iff)
  qed
qed

lemma hasInternalBattery_loop_False:
  "\<not> hasInternalBattery_loop describe srcs \<Longrightarrow> getBatteryPercentage_loop describe srcs = PyInt 0"
  by (induction srcs) (auto simp: Let_def split: if_splits)

lemma host_ac_only_no_battery: "\<not> hasInternalBattery host_ac_only"
  by (simp add: hasInternalBattery_def host_ac_only_def host_idle_ok_def dict_get_def)

section \<open>Failed assertion creation\<close>

text \<open>
  Claim C1. Whenever the creation call that \<^verbatim>\<open>assertSleepPrevention\<close> issues
  returns a non-zero error code, the operation returns \<^verbatim>\<open>None\<close>, adds exactly
  one error entry to the log and makes no release call; the only host call it makes is
  that one creation call. The operation is a total function whose result is a value,
  so nothing propagates to the caller.
\<close>

theorem assertSleepPrevention_failure:
  assumes "fst (IOPMAssertionCreateWithName h (kIOPMAssertionType h) kIOPMAssertionLevelOn
                  (reason_or_default reason)) \<noteq> 0"
  shows "fst (assertSleepPrevention h reason t) = None
    \<and> snd (assertSleepPrevention h reason t)
        = t @ emitted t (snd (assertSleepPrevention h reason t))
    \<and> error_entries (emitted t (snd (assertSleepPrevention h reason t)))
        = [''Failed to create sleep prevention assertion.'']
    \<and> release_calls (emitted t (snd (assertSleepPrevention h reason t))) = []
    \<and> create_calls (emitted t (snd (assertSleepPrevention h reason t)))
        = [(kIOPMAssertionType h, kIOPMAssertionLevelOn, reason_or_default reason)]"
proof -
  have "fst (assertSleepPrevention h reason t) = None"
    using assms by (simp add: assertSleepPrevention_fst)
  moreover have "snd (assertSleepPrevention h reason t)
        = t @ emitted t (snd (assertSleepPrevention h reason t))"
    by (rule assertSleepPrevention_extends)
  moreover have "error_entries (emitted t (snd (assertSleepPrevention h reason t)))
        = [''Failed to create sleep prevention assertion.'']"
    using assms by (simp add: assertSleepPrevention_emitted)
  moreover have "release_calls (emitted t (snd (assertSleepPrevention h reason t))) = []"
    by (simp add: assertSleepPrevention_emitted)
  moreover have "create_calls (emitted t (snd (assertSleepPrevention h reason t)))
        = [(kIOPMAssertionType h, kIOPMAssertionLevelOn, reason_or_default reason)]"
    by (simp add: assertSleepPrevention_emitted)
  ultimately show ?thesis by simp
qed

theorem assertSleepPrevention_failure_witness:
  "fst (IOPMAssertionCreateWithName host_idle_fail (kIOPMAssertionType host_idle_fail)
          kIOPMAssertionLevelOn (reason_or_default None)) \<noteq> 0
   \<and> fst (assertSleepPrevention host_idle_fail None []) = None
   \<and> error_entries (emitted [] (snd (assertSleepPrevention host_idle_fail None [])))
        = [''Failed to create sleep prevention assertion.'']
   \<and> release_calls (emitted [] (snd (assertSleepPrevention host_idle_fail None []))) = []"
proof -
  have hyp: "fst (IOPMAssertionCreateWithName host_idle_fail (kIOPMAssertionType host_idle_fail)
          kIOPMAssertionLevelOn (reason_or_default None)) \<noteq> 0"
    by (simp add: host_idle_fail_def)
  show ?thesis
    using hyp assertSleepPrevention_failure [OF hyp, of "[]"] by blast
qed

section \<open>Choice of the assertion kind\<close>

text \<open>
  Claim C2. \<^verbatim>\<open>assertSleepPrevention\<close> makes exactly one creation call. Its kind
  is \<^verbatim>\<open>NoDisplaySleepAssertion\<close> if the preference
  \<^verbatim>\<open>SuspendDisplaySleepDuringBootstrap\<close> is truthy, the marker file exists and the
  console user is \<^verbatim>\<open>loginwindow\<close>, and \<^verbatim>\<open>NoIdleSleepAssertion\<close>
  otherwise. The explanatory entry is logged before the creation call in the first case,
  and is not logged at all in the second.
\<close>

theorem assertSleepPrevention_kind:
  "create_calls (emitted t (snd (assertSleepPrevention h reason t)))
     = [(if truthy (pref h ''SuspendDisplaySleepDuringBootstrap'')
            \<and> path_exists h (CHECKANDINSTALLATSTARTUPFLAG h)
            \<and> getconsoleuser h = PyStr ''loginwindow''
         then ''NoDisplaySleepAssertion'' else ''NoIdleSleepAssertion'',
         255, reason_or_default reason)]
   \<and> (LogInfo display_sleep_explanation
         \<in> set (takeWhile (\<lambda>e. \<not> is_create e) (emitted t (snd (assertSleepPrevention h reason t))))
       \<longleftrightarrow> truthy (pref h ''SuspendDisplaySleepDuringBootstrap'')
            \<and> path_exists h (CHECKANDINSTALLATSTARTUPFLAG h)
            \<and> getconsoleuser h = PyStr ''loginwindow'')
   \<and> (LogInfo display_sleep_explanation
         \<in> set (emitted t (snd (assertSleepPrevention h reason t)))
       \<longleftrightarrow> truthy (pref h ''SuspendDisplaySleepDuringBootstrap'')
            \<and> path_exists h (CHECKANDINSTALLATSTARTUPFLAG h)
            \<and> getconsoleuser h = PyStr ''loginwindow'')"
proof -
  let ?c = "truthy (pref h ''SuspendDisplaySleepDuringBootstrap'')
            \<and> path_exists h (CHECKANDINSTALLATSTARTUPFLAG h)
            \<and> getconsoleuser h = PyStr ''loginwindow''"
  have c: "truthy (prevent_display_sleep h) \<longleftrightarrow> ?c"
    by (rule truthy_prevent_display_sleep)
  show ?thesis
  proof (cases ?c)
    case True
    then have "truthy (prevent_display_sleep h)" using c by simp
    then show ?thesis
      using True
      by (simp add: assertSleepPrevention_emitted kIOPMAssertionType_def
          kIOPMAssertionLevelOn_def)
  next
    case False
    then have "\<not> truthy (prevent_display_sleep h)" using c by simp
    then show ?thesis
      using False
      by (simp add: assertSleepPrevention_emitted kIOPMAssertionType_def
          kIOPMAssertionLevelOn_def)
  qed
qed

theorem assertSleepPrevention_kind_witness:
  "create_calls (emitted [] (snd (assertSleepPrevention host_display_zero None [])))
     = [(''NoDisplaySleepAssertion'', 255, ''Munki is installing software'')]
   \<and> LogInfo display_sleep_explanation
        \<in> set (takeWhile (\<lambda>e. \<not> is_create e)
                 (emitted [] (snd (assertSleepPrevention host_display_zero None []))))
   \<and> create_calls (emitted [] (snd (assertSleepPrevention host_bootstrap_user None [])))
     = [(''NoIdleSleepAssertion'', 255, ''Munki is installing software'')]
   \<and> LogInfo display_sleep_explanation
        \<notin> set (emitted [] (snd (assertSleepPrevention host_bootstrap_user None [])))"
proof -
  have d: "truthy (pref host_display_zero ''SuspendDisplaySleepDuringBootstrap'')
      \<and> path_exists host_display_zero (CHECKANDINSTALLATSTARTUPFLAG host_display_zero)
      \<and> getconsoleuser host_display_zero = PyStr ''loginwindow''"
    using host_display_zero_display by (simp only: truthy_prevent_display_sleep simp_thms)
  have u: "\<not> (truthy (pref host_bootstrap_user ''SuspendDisplaySleepDuringBootstrap'')
      \<and> path_exists host_bootstrap_user (CHECKANDINSTALLATSTARTUPFLAG host_bootstrap_user)
      \<and> getconsoleuser host_bootstrap_user = PyStr ''loginwindow'')"
    using host_bootstrap_user_idle by (simp only: truthy_prevent_display_sleep simp_thms)
  have r: "reason_or_default None = ''Munki is installing software''"
    by (simp add: reason_or_default_def)
  have a: "create_calls (emitted [] (snd (assertSleepPrevention host_display_zero None [])))
       = [(''NoDisplaySleepAssertion'', 255, ''Munki is installing software'')]
     \<and> LogInfo display_sleep_explanation
        \<in> set (takeWhile (\<lambda>e. \<not> is_create e)
                 (emitted [] (snd (assertSleepPrevention host_display_zero None []))))"
    using assertSleepPrevention_kind [of "[]" host_display_zero None] d
    unfolding r by (simp only: if_True if_False simp_thms)
  have b: "create_calls (emitted [] (snd (assertSleepPrevention host_bootstrap_user None [])))
       = [(''NoIdleSleepAssertion'', 255, ''Munki is installing software'')]
     \<and> LogInfo display_sleep_explanation
        \<notin> set (emitted [] (snd (assertSleepPrevention host_bootstrap_user None [])))"
    using assertSleepPrevention_kind [of "[]" host_bootstrap_user None] u
    unfolding r by (simp only: if_True if_False simp_thms)
  show ?thesis
    using a b by blast
qed

section \<open>Successful assertion creation and release\<close>

text \<open>
  Claim C3, as stated, asks for exactly one informational entry before the return and for
  exactly one release call when the returned id is released. On the host
  \<open>host_display_zero\<close> creation succeeds, yet two informational entries are logged
  and releasing the returned id, which is 0, makes no release call.
\<close>

theorem assertSleepPrevention_success_counterexample:
  "fst (IOPMAssertionCreateWithName host_display_zero (kIOPMAssertionType host_display_zero)
          kIOPMAssertionLevelOn (reason_or_default None)) = 0
   \<and> fst (assertSleepPrevention host_display_zero None []) = Some 0
   \<and> length (info_entries (emitted [] (snd (assertSleepPrevention host_display_zero None [])))) = 2
   \<and> release_calls (emitted (snd (assertSleepPrevention host_display_zero None []))
        (removeSleepPreventionAssertion (fst (assertSleepPrevention host_display_zero None []))
           (snd (assertSleepPrevention host_display_zero None [])))) = []"
proof -
  have res: "fst (assertSleepPrevention host_display_zero None []) = Some 0"
    by (simp add: assertSleepPrevention_fst host_display_zero_create)
  have "length (info_entries (emitted [] (snd (assertSleepPrevention host_display_zero None [])))) = 2"
    by (simp add: assertSleepPrevention_emitted host_display_zero_create
        host_display_zero_display)
  moreover have "release_calls (emitted (snd (assertSleepPrevention host_display_zero None []))
        (removeSleepPreventionAssertion (fst (assertSleepPrevention host_display_zero None []))
           (snd (assertSleepPrevention host_display_zero None [])))) = []"
    unfolding res removeSleepPreventionAssertion_snd by (simp add: emitted_self)
  ultimately show ?thesis
    using res by (simp add: host_display_zero_create)
qed

text \<open>
  Claim C3, amended. When the creation call returns error code 0 and id \<open>i\<close>,
  \<^verbatim>\<open>assertSleepPrevention\<close> returns \<open>i\<close> and logs no error. The
  informational entries before the return are the entry naming the kind of sleep being
  prevented, preceded by the explanatory entry when display sleep is prevented: one entry
  in the idle case, two in the display case. If \<open>i\<close> is not 0, a subsequent
  \<^verbatim>\<open>removeSleepPreventionAssertion\<close> on the returned id logs exactly one
  informational entry and then makes exactly one release call, for \<open>i\<close>.
\<close>

theorem assertSleepPrevention_success:
  assumes "IOPMAssertionCreateWithName h (kIOPMAssertionType h) kIOPMAssertionLevelOn
             (reason_or_default reason) = (0, i)"
  shows "fst (assertSleepPrevention h reason t) = Some i
    \<and> info_entries (emitted t (snd (assertSleepPrevention h reason t)))
        = (if truthy (pref h ''SuspendDisplaySleepDuringBootstrap'')
              \<and> path_exists h (CHECKANDINSTALLATSTARTUPFLAG h)
              \<and> getconsoleuser h = PyStr ''loginwindow''
           then [display_sleep_explanation,
                 ''Preventing display sleep due to: '' @ reason_or_default reason]
           else [''Preventing idle sleep due to: '' @ reason_or_default reason])
    \<and> error_entries (emitted t (snd (assertSleepPrevention h reason t))) = []
    \<and> (i \<noteq> 0 \<longrightarrow>
         emitted t' (removeSleepPreventionAssertion (fst (assertSleepPrevention h reason t)) t')
           = [LogInfo ''Allowing idle sleep'', HostRelease i])"
proof -
  have res: "fst (assertSleepPrevention h reason t) = Some i"
    using assms by (simp add: assertSleepPrevention_fst)
  have "info_entries (emitted t (snd (assertSleepPrevention h reason t)))
        = (if truthy (prevent_display_sleep h)
           then [display_sleep_explanation,
                 ''Preventing display sleep due to: '' @ reason_or_default reason]
           else [''Preventing idle sleep due to: '' @ reason_or_default reason])"
    using assms by (simp add: assertSleepPrevention_emitted)
  moreover have "error_entries (emitted t (snd (assertSleepPrevention h reason t))) = []"
    using assms by (simp add: assertSleepPrevention_emitted)
  moreover have "i \<noteq> 0 \<longrightarrow>
         emitted t' (removeSleepPreventionAssertion (fst (assertSleepPrevention h reason t)) t')
           = [LogInfo ''Allowing idle sleep'', HostRelease i]"
    unfolding res removeSleepPreventionAssertion_snd by (simp add: emitted_append)
  ultimately show ?thesis
    using res by (simp add: truthy_prevent_display_sleep)
qed

theorem assertSleepPrevention_success_witness:
  "IOPMAssertionCreateWithName host_idle_ok (kIOPMAssertionType host_idle_ok)
       kIOPMAssertionLevelOn (reason_or_default (Some ''updating'')) = (0, 42)
   \<and> (42::int) \<noteq> 0
   \<and> fst (assertSleepPrevention host_idle_ok (Some ''updating'') []) = Some 42
   \<and> info_entries (emitted [] (snd (assertSleepPrevention host_idle_ok (Some ''updating'') [])))
        = [''Preventing idle sleep due to: updating'']
   \<and> emitted (snd (assertSleepPrevention host_idle_ok (Some ''updating'') []))
        (removeSleepPreventionAssertion
           (fst (assertSleepPrevention host_idle_ok (Some ''updating'') []))
           (snd (assertSleepPrevention host_idle_ok (Some ''updating'') [])))
        = [LogInfo ''Allowing idle sleep'', HostRelease 42]"
proof -
  have hyp: "IOPMAssertionCreateWithName host_idle_ok (kIOPMAssertionType host_idle_ok)
       kIOPMAssertionLevelOn (reason_or_default (Some ''updating'')) = (0, 42)"
    by (simp add: host_idle_ok_def)
  have idle: "\<not> truthy (pref host_idle_ok ''SuspendDisplaySleepDuringBootstrap'')"
    by (simp add: host_idle_ok_def)
  have r: "reason_or_default (Some ''updating'') = ''updating''"
    by (simp add: reason_or_default_def)
  have nz: "(42::int) \<noteq> 0" by simp
  note inst = assertSleepPrevention_success [OF hyp, of "[]" "snd (assertSleepPrevention host_idle_ok (Some ''updating'') [])"]
  have a: "fst (assertSleepPrevention host_idle_ok (Some ''updating'') []) = Some 42"
    using inst by blast
  have b: "info_entries (emitted [] (snd (assertSleepPrevention host_idle_ok (Some ''updating'') [])))
        = [''Preventing idle sleep due to: updating'']"
    using inst idle unfolding r by simp
  have c: "emitted (snd (assertSleepPrevention host_idle_ok (Some ''updating'') []))
        (removeSleepPreventionAssertion
           (fst (assertSleepPrevention host_idle_ok (Some ''updating'') []))
           (snd (assertSleepPrevention host_idle_ok (Some ''updating'') [])))
        = [LogInfo ''Allowing idle sleep'', HostRelease 42]"
    using inst nz by blast
  show ?thesis
    using hyp nz a b c by blast
qed

section \<open>Releasing\<close>

text \<open>
  Claim C4. \<^verbatim>\<open>removeSleepPreventionAssertion(None)\<close> leaves the trace as it is:
  it makes no host call and logs nothing, whatever happened before.
\<close>

theorem removeSleepPreventionAssertion_None:
  "removeSleepPreventionAssertion None t = t
   \<and> emitted t (removeSleepPreventionAssertion None t) = []
   \<and> release_calls (emitted t (removeSleepPreventionAssertion None t)) = []
   \<and> info_entries (emitted t (removeSleepPreventionAssertion None t)) = []
   \<and> error_entries (emitted t (removeSleepPreventionAssertion None t)) = []"
  by (simp add: removeSleepPreventionAssertion_def emitted_self)

text \<open>
  Claim C9. \<^verbatim>\<open>removeSleepPreventionAssertion(0)\<close> behaves as
  \<^verbatim>\<open>removeSleepPreventionAssertion(None)\<close>: no host call and no log entry. Hence, if
  the host grants an assertion with id 0, \<^verbatim>\<open>assertSleepPrevention\<close> returns 0, a
  \<^verbatim>\<open>Caffeinator\<close> stores it, and over the whole lifetime of that handle the
  creation call is made and no release call follows.
\<close>

theorem removeSleepPreventionAssertion_zero:
  "removeSleepPreventionAssertion (Some 0) t = removeSleepPreventionAssertion None t
   \<and> emitted t (removeSleepPreventionAssertion (Some 0) t) = []
   \<and> (IOPMAssertionCreateWithName h (kIOPMAssertionType h) kIOPMAssertionLevelOn
         (reason_or_default reason) = (0, 0) \<longrightarrow>
       fst (assertSleepPrevention h reason t) = Some 0
       \<and> assertion_id (fst (Caffeinator_init h reason t)) = Some 0
       \<and> create_calls (emitted t (Caffeinator_lifetime h reason t))
            = [(kIOPMAssertionType h, kIOPMAssertionLevelOn, reason_or_default reason)]
       \<and> release_calls (emitted t (Caffeinator_lifetime h reason t)) = [])"
proof -
  have a: "removeSleepPreventionAssertion (Some 0) t = removeSleepPreventionAssertion None t"
    by (simp add: removeSleepPreventionAssertion_def)
  have b: "emitted t (removeSleepPreventionAssertion (Some 0) t) = []"
    by (simp add: removeSleepPreventionAssertion_def emitted_self)
  have c: "fst (assertSleepPrevention h reason t) = Some 0
       \<and> assertion_id (fst (Caffeinator_init h reason t)) = Some 0
       \<and> create_calls (emitted t (Caffeinator_lifetime h reason t))
            = [(kIOPMAssertionType h, kIOPMAssertionLevelOn, reason_or_default reason)]
       \<and> release_calls (emitted t (Caffeinator_lifetime h reason t)) = []"
    if ok: "IOPMAssertionCreateWithName h (kIOPMAssertionType h) kIOPMAssertionLevelOn
         (reason_or_default reason) = (0, 0)"
  proof -
    have res: "fst (assertSleepPrevention h reason t) = Some 0"
      using ok by (simp add: assertSleepPrevention_fst)
    have "assertion_id (fst (Caffeinator_init h reason t)) = Some 0"
      using res by (simp add: Caffeinator_init_assertion_id)
    moreover have "create_calls (emitted t (Caffeinator_lifetime h reason t))
            = [(kIOPMAssertionType h, kIOPMAssertionLevelOn, reason_or_default reason)]"
      unfolding Caffeinator_lifetime_emitted res
      by (simp add: assertSleepPrevention_emitted create_calls_append)
    moreover have "release_calls (emitted t (Caffeinator_lifetime h reason t)) = []"
      unfolding Caffeinator_lifetime_emitted res
      by (simp add: assertSleepPrevention_emitted release_calls_append)
    ultimately show ?thesis using res by blast
  qed
  show ?thesis using a b c by blast
qed

theorem removeSleepPreventionAssertion_zero_witness:
  "IOPMAssertionCreateWithName host_display_zero (kIOPMAssertionType host_display_zero)
      kIOPMAssertionLevelOn (reason_or_default None) = (0, 0)
   \<and> fst (assertSleepPrevention host_display_zero None []) = Some 0
   \<and> create_calls (emitted [] (Caffeinator_lifetime host_display_zero None []))
        = [(kIOPMAssertionType host_display_zero, kIOPMAssertionLevelOn, reason_or_default None)]
   \<and> release_calls (emitted [] (Caffeinator_lifetime host_display_zero None [])) = []"
proof -
  have hyp: "IOPMAssertionCreateWithName host_display_zero (kIOPMAssertionType host_display_zero)
      kIOPMAssertionLevelOn (reason_or_default None) = (0, 0)"
    by (rule host_display_zero_create)
  show ?thesis
    using hyp removeSleepPreventionAssertion_zero [of "[]" host_display_zero None] by blast
qed

section \<open>The scoped handle when creation fails\<close>

text \<open>
  Claim C5. When the creation call returns a non-zero error code, constructing a
  \<^verbatim>\<open>Caffeinator\<close> still yields a handle, one that owns \<^verbatim>\<open>None\<close>; and
  from construction to deletion the handle causes no release call and exactly one error
  entry. Construction is a total function whose result is the handle, so it has no
  failing outcome.
\<close>

theorem Caffeinator_failed_creation:
  assumes "fst (IOPMAssertionCreateWithName h (kIOPMAssertionType h) kIOPMAssertionLevelOn
                  (reason_or_default reason)) \<noteq> 0"
  shows "assertion_id (fst (Caffeinator_init h reason t)) = None
    \<and> release_calls (emitted t (Caffeinator_lifetime h reason t)) = []
    \<and> error_entries (emitted t (Caffeinator_lifetime h reason t))
         = [''Failed to create sleep prevention assertion.'']"
proof -
  have res: "fst (assertSleepPrevention h reason t) = None"
    using assms by (simp add: assertSleepPrevention_fst)
  have "assertion_id (fst (Caffeinator_init h reason t)) = None"
    using res by (simp add: Caffeinator_init_assertion_id)
  moreover have "release_calls (emitted t (Caffeinator_lifetime h reason t)) = []"
    unfolding Caffeinator_lifetime_emitted res
    by (simp add: assertSleepPrevention_emitted release_calls_append)
  moreover have "error_entries (emitted t (Caffeinator_lifetime h reason t))
         = [''Failed to create sleep prevention assertion.'']"
    unfolding Caffeinator_lifetime_emitted res
    using assms by (simp add: assertSleepPrevention_emitted error_entries_append)
  ultimately show ?thesis by blast
qed

theorem Caffeinator_failed_creation_witness:
  "fst (IOPMAssertionCreateWithName host_idle_fail (kIOPMAssertionType host_idle_fail)
          kIOPMAssertionLevelOn (reason_or_default (Some ''patching''))) \<noteq> 0
   \<and> assertion_id (fst (Caffeinator_init host_idle_fail (Some ''patching'') [])) = None
   \<and> release_calls (emitted [] (Caffeinator_lifetime host_idle_fail (Some ''patching'') [])) = []
   \<and> error_entries (emitted [] (Caffeinator_lifetime host_idle_fail (Some ''patching'') []))
         = [''Failed to create sleep prevention assertion.'']"
proof -
  have hyp: "fst (IOPMAssertionCreateWithName host_idle_fail (kIOPMAssertionType host_idle_fail)
          kIOPMAssertionLevelOn (reason_or_default (Some ''patching''))) \<noteq> 0"
    by (simp add: host_idle_fail_def)
  show ?thesis
    using hyp Caffeinator_failed_creation [OF hyp, of "[]"] by blast
qed

section \<open>Power queries\<close>

text \<open>
  Claim C6. \<^verbatim>\<open>getBatteryPercentage\<close> looks for the first descriptor, in the order
  of the host's list, whose \<^verbatim>\<open>Type\<close> is the string \<^verbatim>\<open>InternalBattery\<close>.
  If there is one, the result is its \<^verbatim>\<open>Current Capacity\<close>, or 0 when it has no
  such key; if there is none, in particular when the list is empty, the result is 0.
\<close>

theorem getBatteryPercentage_first_match:
  "getBatteryPercentage h =
     (case find (\<lambda>d. d ''Type'' = Some (PyStr ''InternalBattery''))
             (map (IOPSGetPowerSourceDescription h (IOPSCopyPowerSourcesInfo h))
                (IOPSCopyPowerSourcesList h (IOPSCopyPowerSourcesInfo h))) of
        None \<Rightarrow> PyInt 0
      | Some d \<Rightarrow> (case d ''Current Capacity'' of None \<Rightarrow> PyInt 0 | Some v \<Rightarrow> v))"
  by (simp add: getBatteryPercentage_def getBatteryPercentage_loop_find Let_def)

text \<open>
  Claim C10. On every host, if \<^verbatim>\<open>hasInternalBattery\<close> returns false then
  \<^verbatim>\<open>getBatteryPercentage\<close> returns 0.
\<close>

theorem no_battery_percentage_zero:
  assumes "\<not> hasInternalBattery h"
  shows "getBatteryPercentage h = PyInt 0"
  using assms
  by (simp add: hasInternalBattery_def getBatteryPercentage_def hasInternalBattery_loop_False Let_def)

theorem no_battery_percentage_zero_witness:
  "\<not> hasInternalBattery host_ac_only \<and> getBatteryPercentage host_ac_only = PyInt 0"
  using host_ac_only_no_battery no_battery_percentage_zero [OF host_ac_only_no_battery] by blast

text \<open>
  Claim C7. When the host reports the string \<open>s\<close> as the providing power source,
  \<^verbatim>\<open>onACPower\<close> is true and \<^verbatim>\<open>onBatteryPower\<close> false exactly when
  \<open>s\<close> is \<^verbatim>\<open>AC Power\<close>, the reverse holds exactly when \<open>s\<close> is
  \<^verbatim>\<open>Battery Power\<close>, and for any other string both are false. Both operations
  are total functions into the booleans, so no string makes them fail.
\<close>

theorem power_source_kind:
  assumes "IOPSGetProvidingPowerSourceType h (IOPSCopyPowerSourcesInfo h) = PyStr s"
  shows "(onACPower h \<and> \<not> onBatteryPower h \<longleftrightarrow> s = ''AC Power'')
    \<and> (onBatteryPower h \<and> \<not> onACPower h \<longleftrightarrow> s = ''Battery Power'')
    \<and> (s \<noteq> ''AC Power'' \<and> s \<noteq> ''Battery Power'' \<longrightarrow> \<not> onACPower h \<and> \<not> onBatteryPower h)"
proof -
  have ac: "onACPower h \<longleftrightarrow> s = ''AC Power''"
    using assms by (simp add: onACPower_def)
  have bat: "onBatteryPower h \<longleftrightarrow> s = ''Battery Power''"
    using assms by (simp add: onBatteryPower_def)
  have "''AC Power'' \<noteq> ''Battery Power''" by simp
  then show ?thesis using ac bat by blast
qed

theorem power_source_kind_witness:
  "IOPSGetProvidingPowerSourceType host_idle_ok (IOPSCopyPowerSourcesInfo host_idle_ok)
     = PyStr ''UPS Power''
   \<and> ''UPS Power'' \<noteq> ''AC Power'' \<and> ''UPS Power'' \<noteq> ''Battery Power''
   \<and> \<not> onACPower host_idle_ok \<and> \<not> onBatteryPower host_idle_ok
   \<and> IOPSGetProvidingPowerSourceType host_ac_only (IOPSCopyPowerSourcesInfo host_ac_only)
     = PyStr ''AC Power''
   \<and> onACPower host_ac_only \<and> \<not> onBatteryPower host_ac_only"
proof -
  have ups: "IOPSGetProvidingPowerSourceType host_idle_ok (IOPSCopyPowerSourcesInfo host_idle_ok)
     = PyStr ''UPS Power''"
    by (simp add: host_idle_ok_def)
  have ac: "IOPSGetProvidingPowerSourceType host_ac_only (IOPSCopyPowerSourcesInfo host_ac_only)
     = PyStr ''AC Power''"
    by (simp add: host_ac_only_def)
  have ne: "''UPS Power'' \<noteq> ''AC Power'' \<and> ''UPS Power'' \<noteq> ''Battery Power''"
    by simp
  have a: "\<not> onACPower host_idle_ok \<and> \<not> onBatteryPower host_idle_ok"
    using power_source_kind [OF ups] by simp
  have b: "onACPower host_ac_only \<and> \<not> onBatteryPower host_ac_only"
    using power_source_kind [OF ac] by simp
  show ?thesis
    using ups ac a b by simp
qed

section \<open>The default reason\<close>

text \<open>
  Claim C8, as stated, says that without a reason the creation call carries the string
  \<^verbatim>\<open>software is installing\<close>. On the host \<open>host_idle_ok\<close> it does not.
\<close>

theorem default_reason_counterexample:
  "map (snd \<circ> snd) (create_calls (emitted [] (snd (assertSleepPrevention host_idle_ok None []))))
     \<noteq> [''software is installing'']"
  by (simp add: assertSleepPrevention_emitted reason_or_default_def)

text \<open>
  Claim C8, amended. When the caller supplies no reason, the one creation call that
  \<^verbatim>\<open>assertSleepPrevention\<close> makes carries the fixed string
  \<^verbatim>\<open>Munki is installing software\<close>.
\<close>

theorem default_reason:
  "map (snd \<circ> snd) (create_calls (emitted t (snd (assertSleepPrevention h None t))))
     = [''Munki is installing software'']"
  by (simp add: assertSleepPrevention_emitted reason_or_default_def)

end
